theory Spec2Isabelle
  imports Complex_Main "HOL-Library.Multiset"
begin

section \<open>JavaScript values used by \<open>src/google-books.ts\<close>\<close>

text \<open>
  The model is the JavaScript that the TypeScript source denotes once its types are
  erased. Strings are byte strings (\<open>char list\<close>, read as well-formed UTF-8). Case mapping
  and white space are modelled on ASCII: \<open>toLowerCase\<close> maps \<open>A\<close>..\<open>Z\<close> to \<open>a\<close>..\<open>z\<close> and
  leaves every other byte alone, \<open>trim\<close> removes TAB, LF, VT, FF, CR and SPACE from both
  ends. JavaScript numbers are modelled as exact rationals: the rounding of IEEE doubles,
  \<open>NaN\<close> and the infinities are not modelled.
\<close>

definition upper_chars :: string where
  "upper_chars = ''ABCDEFGHIJKLMNOPQRSTUVWXYZ''"

definition lower_chars :: string where
  "lower_chars = ''abcdefghijklmnopqrstuvwxyz''"

definition digit_chars :: string where
  "digit_chars = ''0123456789''"

definition lower_char :: "char \<Rightarrow> char" where
  "lower_char c = (case map_of (zip upper_chars lower_chars) c of None \<Rightarrow> c | Some d \<Rightarrow> d)"

definition toLowerCase :: "string \<Rightarrow> string" where
  "toLowerCase s = map lower_char s"

definition is_space :: "char \<Rightarrow> bool" where
  "is_space c = (c \<in> set [CHR 0x09, CHR 0x0A, CHR 0x0B, CHR 0x0C, CHR 0x0D, CHR 0x20])"

definition trim :: "string \<Rightarrow> string" where
  "trim s = rev (dropWhile is_space (rev (dropWhile is_space s)))"

fun startsWith :: "string \<Rightarrow> string \<Rightarrow> bool" where
  "startsWith s [] = True"
| "startsWith [] (n # ns) = False"
| "startsWith (c # cs) (n # ns) = (c = n \<and> startsWith cs ns)"

text \<open>\<open>String.prototype.includes\<close>: the needle occurs at some position of the string.\<close>

fun str_includes :: "string \<Rightarrow> string \<Rightarrow> bool" where
  "str_includes [] needle = (needle = [])"
| "str_includes (c # cs) needle = (startsWith (c # cs) needle \<or> str_includes cs needle)"

text \<open>\<open>Array.prototype.join\<close> on an array of strings.\<close>

fun join :: "string \<Rightarrow> string list \<Rightarrow> string" where
  "join sep [] = []"
| "join sep [x] = x"
| "join sep (x # y # ys) = x @ sep @ join sep (y # ys)"

text \<open>
  \<open>encodeURIComponent\<close>: letters, digits and \<open>- _ . ! ~ * ' ( )\<close> are kept, every other
  byte of the UTF-8 encoding becomes \<open>%XX\<close> with upper-case hexadecimal digits.
\<close>

definition uri_unreserved :: "char \<Rightarrow> bool" where
  "uri_unreserved c =
     (c \<in> set (upper_chars @ lower_chars @ digit_chars @
        [CHR ''-'', CHR ''_'', CHR ''.'', CHR ''!'', CHR ''~'', CHR ''*'', CHR 0x27,
         CHR ''('', CHR '')'']))"

definition hex_digit :: "nat \<Rightarrow> char" where
  "hex_digit n = ''0123456789ABCDEF'' ! (n mod 16)"

definition encode_char :: "char \<Rightarrow> string" where
  "encode_char c =
     (if uri_unreserved c then [c]
      else [CHR ''%'', hex_digit (of_char c div 16), hex_digit (of_char c mod 16)])"

definition encodeURIComponent :: "string \<Rightarrow> string" where
  "encodeURIComponent s = concat (map encode_char s)"

text \<open>
  Number to string, as a template literal prints an integer value (of less than 22
  digits): its decimal digits, after a minus sign when it is negative.
\<close>

function show_nat :: "nat \<Rightarrow> string" where
  "show_nat n = (if n < 10 then [hex_digit n] else show_nat (n div 10) @ [hex_digit (n mod 10)])"
  by pat_completeness auto
termination
  by (relation "measure id") auto

declare show_nat.simps [simp del]

definition show_int :: "int \<Rightarrow> string" where
  "show_int i = (if i < 0 then CHR ''-'' # show_nat (nat (- i)) else show_nat (nat i))"

text \<open>
  The operator \<open>||\<close> with a default on the right: the left operand is used unless it is
  falsy (\<open>undefined\<close>, the empty string, the number 0). An array is never falsy.
\<close>

definition truthy_str :: "string option \<Rightarrow> bool" where
  "truthy_str x = (case x of None \<Rightarrow> False | Some s \<Rightarrow> s \<noteq> [])"

definition or_str :: "string option \<Rightarrow> string \<Rightarrow> string" where
  "or_str x d = (case x of None \<Rightarrow> d | Some s \<Rightarrow> if s = [] then d else s)"

definition or_num :: "rat option \<Rightarrow> rat \<Rightarrow> rat" where
  "or_num x d = (case x of None \<Rightarrow> d | Some n \<Rightarrow> if n = 0 then d else n)"

definition or_list :: "'a list option \<Rightarrow> 'a list \<Rightarrow> 'a list" where
  "or_list x d = (case x of None \<Rightarrow> d | Some l \<Rightarrow> l)"

section \<open>Data model\<close>

text \<open>
  \<open>Book\<close> as the provider sends it. The interface declares every field, the code reads
  all of them except \<open>id\<close> and \<open>title\<close> through \<open>||\<close> or \<open>?.\<close>, so these are optional here.
  The fields \<open>kind\<close>, \<open>printType\<close> and \<open>maturityRating\<close> are never read and are left out.
\<close>

record industryIdentifier =
  ii_type :: string
  ii_identifier :: string

record imageLinks =
  thumbnail :: "string option"

record volumeInfo =
  title :: string
  authors :: "string list option"
  publisher :: "string option"
  publishedDate :: "string option"
  description :: "string option"
  industryIdentifiers :: "industryIdentifier list option"
  pageCount :: "rat option"
  categories :: "string list option"
  averageRating :: "rat option"
  ratingsCount :: "rat option"
  imageLinks :: "imageLinks option"
  language :: "string option"
  previewLink :: "string option"
  infoLink :: "string option"
  canonicalVolumeLink :: "string option"

record Book =
  book_id :: string
  volumeInfo :: volumeInfo

record googleBooks =
  gb_id :: string
  gb_preview :: string
  gb_info :: string
  gb_canonical :: string

record BookResult =
  br_title :: string
  br_authors :: "string list"
  br_publisher :: string
  br_publishedDate :: string
  br_description :: string
  br_image :: string
  br_language :: string
  br_averageRating :: rat
  br_ratingsCount :: rat
  br_categories :: "string list"
  br_pageCount :: rat
  br_isbn10 :: "string option"
  br_isbn13 :: "string option"
  br_googleBooks :: googleBooks

text \<open>The options; \<open>maxResults\<close> is an integer, as the specification has it.\<close>

record SearchOptions =
  maxResults :: "int option"
  exactTitleMatch :: "bool option"
  minRating :: "rat option"
  opt_language :: "string option"

text \<open>The pair \<open>{ book, score }\<close> built while ranking.\<close>

record scored =
  sc_book :: Book
  sc_score :: rat

text \<open>The body of the provider's response, and what a call can throw.\<close>

record body =
  items :: "Book list option"

datatype error =
  NotFound string
  | TypeError string
  | TransportFailure string

section \<open>Scoring (lines 127 to 157)\<close>

text \<open>\<open>volumeInfo.imageLinks?.thumbnail\<close> and \<open>(volumeInfo.imageLinks || {}).thumbnail\<close>.\<close>

definition thumbnail_of :: "volumeInfo \<Rightarrow> string option" where
  "thumbnail_of v = (case imageLinks v of None \<Rightarrow> None | Some l \<Rightarrow> thumbnail l)"

text \<open>\<open>volumeInfo.industryIdentifiers?.length > 0\<close>\<close>

definition has_identifiers :: "volumeInfo \<Rightarrow> bool" where
  "has_identifiers v = (case industryIdentifiers v of None \<Rightarrow> False | Some l \<Rightarrow> length l > 0)"

definition score_book :: "string \<Rightarrow> Book \<Rightarrow> scored" where
  "score_book query book =
     (let score = 0;
          v = volumeInfo book;
          score = score + 10;
          score = score + or_num (ratingsCount v) 0 / 100;
          score = score + or_num (averageRating v) 0 * 5;
          score =
            (if title v \<noteq> [] \<and> trim (toLowerCase query) = trim (toLowerCase (title v))
             then score + 50
             else if title v \<noteq> [] \<and> str_includes (toLowerCase (title v)) (toLowerCase query)
             then score + 20
             else score);
          score = (if truthy_str (description v) then score + 5 else score);
          score = (if truthy_str (thumbnail_of v) then score + 5 else score);
          score = (if has_identifiers v then score + 5 else score)
      in \<lparr>sc_book = book, sc_score = score\<rparr>)"

definition scoredResults :: "string \<Rightarrow> Book list \<Rightarrow> scored list" where
  "scoredResults query its = map (score_book query) its"

section \<open>Request construction (lines 93 to 116)\<close>

text \<open>The regular expression \<open>/^[0-9-]+$/\<close>: one or more characters, all digits or hyphens.\<close>

definition matches_digits_hyphens :: "string \<Rightarrow> bool" where
  "matches_digits_hyphens s =
     (s \<noteq> [] \<and> list_all (\<lambda>c. c \<in> set digit_chars \<or> c = CHR ''-'') s)"

definition searchQuery :: "string \<Rightarrow> string" where
  "searchQuery query =
     (if \<not> str_includes query '':'' \<and> \<not> matches_digits_hyphens query
      then ''intitle:'' @ [CHR 0x22] @ query @ [CHR 0x22]
      else query)"

definition langParam :: "string option \<Rightarrow> string" where
  "langParam lang =
     (case lang of None \<Rightarrow> []
      | Some l \<Rightarrow> if l \<noteq> [] then ''&langRestrict='' @ l else [])"

definition endpoint :: string where
  "endpoint = ''https://www.googleapis.com/books/v1/volumes''"

definition default_maxResults :: "SearchOptions \<Rightarrow> int" where
  "default_maxResults options = (case maxResults options of None \<Rightarrow> 10 | Some n \<Rightarrow> n)"

definition default_exactTitleMatch :: "SearchOptions \<Rightarrow> bool" where
  "default_exactTitleMatch options =
     (case exactTitleMatch options of None \<Rightarrow> False | Some b \<Rightarrow> b)"

definition default_minRating :: "SearchOptions \<Rightarrow> rat" where
  "default_minRating options = (case minRating options of None \<Rightarrow> 0 | Some r \<Rightarrow> r)"

definition search_url :: "string \<Rightarrow> SearchOptions \<Rightarrow> string" where
  "search_url query options =
     endpoint @ ''?q='' @ encodeURIComponent (searchQuery query) @
     langParam (opt_language options) @ ''&maxResults='' @ show_int (default_maxResults options)"

section \<open>Filtering and ranking (lines 123 to 186)\<close>

text \<open>
  Line 127 declares \<open>scoredResults\<close> with \<open>const\<close>. Lines 161, 173 and 179 assign to it.
  An assignment to a \<open>const\<close> binding evaluates its right-hand side and then throws a
  \<open>TypeError\<close>; the binding keeps its value. (Line 124 declares \<open>filteredResults\<close> with
  \<open>let\<close> and never assigns to it.)
\<close>

definition const_fault :: error where
  "const_fault = TypeError ''Assignment to constant variable.''"

definition assign_const :: "'a \<Rightarrow> error + 'a" where
  "assign_const v = Inl const_fault"

definition rating_at_least :: "rat \<Rightarrow> scored \<Rightarrow> bool" where
  "rating_at_least r item = (or_num (averageRating (volumeInfo (sc_book item))) 0 \<ge> r)"

definition is_exact_match :: "string \<Rightarrow> scored \<Rightarrow> bool" where
  "is_exact_match query item =
     (trim (toLowerCase (title (volumeInfo (sc_book item)))) = trim (toLowerCase query))"

definition filter_results :: "string \<Rightarrow> bool \<Rightarrow> rat \<Rightarrow> Book list \<Rightarrow> error + scored list" where
  "filter_results query exact minr its =
     (let filteredResults = its;
          scored0 = scoredResults query filteredResults
      in case (if minr > 0 then assign_const (filter (rating_at_least minr) scored0)
               else Inr scored0) of
           Inl e \<Rightarrow> Inl e
         | Inr scored1 \<Rightarrow>
             (case (if exact
                    then (let exactMatches = filter (is_exact_match query) scored1
                          in if length exactMatches > 0 then assign_const exactMatches
                             else Inr scored1)
                    else Inr scored1) of
                Inl e \<Rightarrow> Inl e
              | Inr scored2 \<Rightarrow>
                  (if length scored2 = 0
                   then assign_const (map (\<lambda>book. \<lparr>sc_book = book, sc_score = 0\<rparr>) its)
                   else Inr scored2)))"

text \<open>
  \<open>scoredResults.sort((a, b) => b.score - a.score)\<close>. \<open>Array.prototype.sort\<close> is stable
  (ECMAScript 2019); with a comparator that is a total preorder the result is the one
  stable arrangement, computed here by insertion from the right.
\<close>

definition compare_score :: "scored \<Rightarrow> scored \<Rightarrow> rat" where
  "compare_score a b = sc_score b - sc_score a"

fun insert_sorted :: "('a \<Rightarrow> 'a \<Rightarrow> rat) \<Rightarrow> 'a \<Rightarrow> 'a list \<Rightarrow> 'a list" where
  "insert_sorted cmp x [] = [x]"
| "insert_sorted cmp x (y # ys) =
     (if cmp x y \<le> 0 then x # y # ys else y # insert_sorted cmp x ys)"

fun js_sort :: "('a \<Rightarrow> 'a \<Rightarrow> rat) \<Rightarrow> 'a list \<Rightarrow> 'a list" where
  "js_sort cmp [] = []"
| "js_sort cmp (x # xs) = insert_sorted cmp x (js_sort cmp xs)"

text \<open>\<open>scoredResults[0].book\<close>: reading \<open>.book\<close> of \<open>undefined\<close> throws.\<close>

definition index_fault :: error where
  "index_fault = TypeError ''Cannot read properties of undefined (reading 'book')''"

definition top_book :: "scored list \<Rightarrow> error + Book" where
  "top_book sorted_results =
     (case sorted_results of
        [] \<Rightarrow> Inl index_fault
      | item # rest \<Rightarrow> Inr (sc_book item))"

section \<open>Normalization (lines 188 to 214 and lines 241 to 267)\<close>

definition fallback_image :: "string \<Rightarrow> string list \<Rightarrow> string" where
  "fallback_image t as =
     ''https://tse2.mm.bing.net/th?q='' @ encodeURIComponent (t @ '' by '' @ join '', '' as) @
     ''&w=256&c=7&rs=1&p=0&dpr=3&pid=1.7&mkt=en-IN&adlt=moderate''"

definition find_identifier :: "string \<Rightarrow> industryIdentifier list \<Rightarrow> string option" where
  "find_identifier ty ids =
     (case find (\<lambda>i. ii_type i = ty) ids of None \<Rightarrow> None | Some i \<Rightarrow> Some (ii_identifier i))"

text \<open>The object literal returned by \<open>search\<close>.\<close>

definition search_result :: "Book \<Rightarrow> BookResult" where
  "search_result result =
     \<lparr>br_title = title (volumeInfo result),
      br_authors = or_list (authors (volumeInfo result)) [],
      br_publisher = or_str (publisher (volumeInfo result)) [],
      br_publishedDate = or_str (publishedDate (volumeInfo result)) [],
      br_description = or_str (description (volumeInfo result)) [],
      br_image =
        or_str (thumbnail_of (volumeInfo result))
          (fallback_image (title (volumeInfo result))
             (or_list (authors (volumeInfo result)) [])),
      br_language = or_str (language (volumeInfo result)) [],
      br_averageRating = or_num (averageRating (volumeInfo result)) 0,
      br_ratingsCount = or_num (ratingsCount (volumeInfo result)) 0,
      br_categories = or_list (categories (volumeInfo result)) [],
      br_pageCount = or_num (pageCount (volumeInfo result)) 0,
      br_isbn10 =
        find_identifier ''ISBN_10'' (or_list (industryIdentifiers (volumeInfo result)) []),
      br_isbn13 =
        find_identifier ''ISBN_13'' (or_list (industryIdentifiers (volumeInfo result)) []),
      br_googleBooks =
        \<lparr>gb_id = book_id result,
         gb_preview = or_str (previewLink (volumeInfo result)) [],
         gb_info = or_str (infoLink (volumeInfo result)) [],
         gb_canonical = or_str (canonicalVolumeLink (volumeInfo result)) []\<rparr>\<rparr>"

text \<open>The object literal returned by \<open>searchByIsbn\<close>.\<close>

definition isbn_result :: "Book \<Rightarrow> BookResult" where
  "isbn_result result =
     \<lparr>br_title = title (volumeInfo result),
      br_authors = or_list (authors (volumeInfo result)) [],
      br_publisher = or_str (publisher (volumeInfo result)) [],
      br_publishedDate = or_str (publishedDate (volumeInfo result)) [],
      br_description = or_str (description (volumeInfo result)) [],
      br_image =
        or_str (thumbnail_of (volumeInfo result))
          (fallback_image (title (volumeInfo result))
             (or_list (authors (volumeInfo result)) [])),
      br_language = or_str (language (volumeInfo result)) [],
      br_averageRating = or_num (averageRating (volumeInfo result)) 0,
      br_ratingsCount = or_num (ratingsCount (volumeInfo result)) 0,
      br_categories = or_list (categories (volumeInfo result)) [],
      br_pageCount = or_num (pageCount (volumeInfo result)) 0,
      br_isbn10 =
        find_identifier ''ISBN_10'' (or_list (industryIdentifiers (volumeInfo result)) []),
      br_isbn13 =
        find_identifier ''ISBN_13'' (or_list (industryIdentifiers (volumeInfo result)) []),
      br_googleBooks =
        \<lparr>gb_id = book_id result,
         gb_preview = or_str (previewLink (volumeInfo result)) [],
         gb_info = or_str (infoLink (volumeInfo result)) [],
         gb_canonical = or_str (canonicalVolumeLink (volumeInfo result)) []\<rparr>\<rparr>"

section \<open>The two operations\<close>

text \<open>
  The HTTP client \<open>got\<close> is a parameter: it maps the requested URL to the parsed body, or
  to the error it rejects with, which the operations pass on. A thrown \<open>Error\<close> is the
  value \<open>NotFound\<close> with its message; what \<open>console.error\<close> prints is not modelled.
\<close>

definition search :: "(string \<Rightarrow> error + body) \<Rightarrow> string \<Rightarrow> SearchOptions \<Rightarrow> error + BookResult" where
  "search got query options =
     (case got (search_url query options) of
        Inl e \<Rightarrow> Inl e
      | Inr results \<Rightarrow>
          (case items results of
             None \<Rightarrow> Inl (NotFound ''Book not found'')
           | Some its \<Rightarrow>
               if length its = 0 then Inl (NotFound ''Book not found'')
               else
                 (case filter_results query (default_exactTitleMatch options)
                         (default_minRating options) its of
                    Inl e \<Rightarrow> Inl e
                  | Inr working \<Rightarrow>
                      (case top_book (js_sort compare_score working) of
                         Inl e \<Rightarrow> Inl e
                       | Inr result \<Rightarrow> Inr (search_result result)))))"

text \<open>\<open>isbn.replace(/-/g, '')\<close>\<close>

fun remove_hyphens :: "string \<Rightarrow> string" where
  "remove_hyphens [] = []"
| "remove_hyphens (c # cs) = (if c = CHR ''-'' then remove_hyphens cs else c # remove_hyphens cs)"

definition isbn_url :: "string \<Rightarrow> string" where
  "isbn_url isbn = endpoint @ ''?q=isbn:'' @ remove_hyphens isbn"

definition isbn_not_found :: "string \<Rightarrow> error" where
  "isbn_not_found isbn = NotFound (''Book with ISBN '' @ isbn @ '' not found'')"

definition searchByIsbn :: "(string \<Rightarrow> error + body) \<Rightarrow> string \<Rightarrow> error + BookResult" where
  "searchByIsbn got isbn =
     (let cleanIsbn = remove_hyphens isbn
      in case got (endpoint @ ''?q=isbn:'' @ cleanIsbn) of
           Inl e \<Rightarrow> Inl e
         | Inr results \<Rightarrow>
             (case items results of
                None \<Rightarrow> Inl (isbn_not_found isbn)
              | Some its \<Rightarrow>
                  if length its = 0 then Inl (isbn_not_found isbn)
                  else Inr (isbn_result (its ! 0))))"

section \<open>The specification's formulas and sample inputs\<close>


text \<open>Candidates with an id, a title, a rating and a rating count, every other field absent.\<close>

definition blank_info :: volumeInfo where
  "blank_info =
     \<lparr>title = [], authors = None, publisher = None, publishedDate = None,
      description = None, industryIdentifiers = None, pageCount = None, categories = None,
      averageRating = None, ratingsCount = None, imageLinks = None, language = None,
      previewLink = None, infoLink = None, canonicalVolumeLink = None\<rparr>"

definition sample_book :: "string \<Rightarrow> string \<Rightarrow> rat \<Rightarrow> rat \<Rightarrow> Book" where
  "sample_book i t r n =
     \<lparr>book_id = i,
      volumeInfo = blank_info\<lparr>title := t, averageRating := Some r, ratingsCount := Some n\<rparr>\<rparr>"


text \<open>The candidates of the title-search scenario (section 8, item 6).\<close>

definition dune_items :: "Book list" where
  "dune_items =
     [sample_book ''a'' ''Dune'' (9 / 2) 1000, sample_book ''b'' ''Dune Messiah'' 4 10,
      sample_book ''c'' ''Dune (Italian Edition)'' 3 5]"


text \<open>The candidate of the missing-image scenario (section 8, item 8).\<close>

definition foo_book :: Book where
  "foo_book =
     \<lparr>book_id = ''f'', volumeInfo = blank_info\<lparr>title := ''Foo'', authors := Some [''Bar'']\<rparr>\<rparr>"

definition no_options :: SearchOptions where
  "no_options =
     \<lparr>maxResults = None, exactTitleMatch = None, minRating = None, opt_language = None\<rparr>"

text \<open>A provider that answers every request with the given candidates.\<close>

definition provider :: "Book list \<Rightarrow> string \<Rightarrow> error + body" where
  "provider its url = Inr \<lparr>items = Some its\<rparr>"

text \<open>A provider that answers one URL only, and rejects every other request.\<close>

definition provider_at :: "string \<Rightarrow> Book list \<Rightarrow> string \<Rightarrow> error + body" where
  "provider_at expected its url =
     (if url = expected then Inr \<lparr>items = Some its\<rparr> else Inl (TransportFailure url))"

text \<open>
  Normalization as the specification words it (section 4.1): an absent field becomes the
  empty string, 0 or the empty list; the image is the thumbnail, or the fallback link
  when there is none (the image is never empty); the identifier list is scanned for the
  first entry of each type.
\<close>

fun first_identifier :: "string \<Rightarrow> industryIdentifier list \<Rightarrow> string option" where
  "first_identifier ty [] = None"
| "first_identifier ty (i # rest) =
     (if ii_type i = ty then Some (ii_identifier i) else first_identifier ty rest)"

definition string_or_empty :: "string option \<Rightarrow> string" where
  "string_or_empty x = (case x of None \<Rightarrow> [] | Some s \<Rightarrow> s)"

definition number_or_zero :: "rat option \<Rightarrow> rat" where
  "number_or_zero x = (case x of None \<Rightarrow> 0 | Some n \<Rightarrow> n)"

definition list_or_empty :: "'a list option \<Rightarrow> 'a list" where
  "list_or_empty x = (case x of None \<Rightarrow> [] | Some l \<Rightarrow> l)"

definition normalization :: "Book \<Rightarrow> BookResult" where
  "normalization b =
     (let v = volumeInfo b
      in \<lparr>br_title = title v,
          br_authors = list_or_empty (authors v),
          br_publisher = string_or_empty (publisher v),
          br_publishedDate = string_or_empty (publishedDate v),
          br_description = string_or_empty (description v),
          br_image =
            (if thumbnail_of v = None \<or> thumbnail_of v = Some []
             then ''https://tse2.mm.bing.net/th?q='' @
                  encodeURIComponent (title v @ '' by '' @ join '', '' (list_or_empty (authors v))) @
                  ''&w=256&c=7&rs=1&p=0&dpr=3&pid=1.7&mkt=en-IN&adlt=moderate''
             else string_or_empty (thumbnail_of v)),
          br_language = string_or_empty (language v),
          br_averageRating = number_or_zero (averageRating v),
          br_ratingsCount = number_or_zero (ratingsCount v),
          br_categories = list_or_empty (categories v),
          br_pageCount = number_or_zero (pageCount v),
          br_isbn10 = first_identifier ''ISBN_10'' (list_or_empty (industryIdentifiers v)),
          br_isbn13 = first_identifier ''ISBN_13'' (list_or_empty (industryIdentifiers v)),
          br_googleBooks =
            \<lparr>gb_id = book_id b,
             gb_preview = string_or_empty (previewLink v),
             gb_info = string_or_empty (infoLink v),
             gb_canonical = string_or_empty (canonicalVolumeLink v)\<rparr>\<rparr>)"

text \<open>A candidate with identifiers of several types and a thumbnail.\<close>

definition isbn_book :: Book where
  "isbn_book =
     \<lparr>book_id = ''i'',
      volumeInfo = blank_info\<lparr>title := ''Dune'',
        industryIdentifiers := Some
          [\<lparr>ii_type = ''OTHER'', ii_identifier = ''x1''\<rparr>,
           \<lparr>ii_type = ''ISBN_13'', ii_identifier = ''9780441013593''\<rparr>,
           \<lparr>ii_type = ''ISBN_10'', ii_identifier = ''0441013597''\<rparr>,
           \<lparr>ii_type = ''ISBN_13'', ii_identifier = ''9780000000000''\<rparr>],
        imageLinks := Some \<lparr>thumbnail = Some ''http://books.example/dune.png''\<rparr>\<rparr>\<rparr>"

section \<open>Properties of the helper functions\<close>


lemma or_str_default: "or_str x [] = string_or_empty x"
  by (simp add: or_str_def string_or_empty_def split: option.splits)

lemma or_num_default: "or_num x 0 = number_or_zero x"
  by (simp add: or_num_def number_or_zero_def split: option.splits)

lemma or_list_default: "or_list x [] = list_or_empty x"
  by (simp add: or_list_def list_or_empty_def)

lemma or_str_fallback_image:
  "or_str x (fallback_image t as) =
     (if x = None \<or> x = Some []
      then ''https://tse2.mm.bing.net/th?q='' @ encodeURIComponent (t @ '' by '' @ join '', '' as) @
           ''&w=256&c=7&rs=1&p=0&dpr=3&pid=1.7&mkt=en-IN&adlt=moderate''
      else string_or_empty x)"
  by (simp add: or_str_def string_or_empty_def fallback_image_def split: option.splits)

lemma or_str_nonempty: "d \<noteq> [] \<Longrightarrow> or_str x d \<noteq> []"
  by (simp add: or_str_def split: option.splits)

lemma fallback_image_nonempty: "fallback_image t as \<noteq> []"
  by (simp add: fallback_image_def)

text \<open>\<open>str_includes\<close> is the substring test.\<close>

lemma startsWith_iff: "startsWith s n \<longleftrightarrow> (\<exists>q. s = n @ q)"
  by (induction s n rule: startsWith.induct) auto

lemma str_includes_iff: "str_includes s n \<longleftrightarrow> (\<exists>p q. s = p @ n @ q)"
proof (induction s)
  case Nil
  then show ?case by simp
next
  case (Cons c cs)
  have "(\<exists>p q. c # cs = p @ n @ q) \<longleftrightarrow> (\<exists>q. c # cs = n @ q) \<or> (\<exists>p q. cs = p @ n @ q)"
  proof
    assume "\<exists>p q. c # cs = p @ n @ q"
    then obtain p q where pq: "c # cs = p @ n @ q" by blast
    show "(\<exists>q. c # cs = n @ q) \<or> (\<exists>p q. cs = p @ n @ q)"
    proof (cases p)
      case Nil
      with pq show ?thesis by auto
    next
      case (Cons a p')
      with pq have "cs = p' @ n @ q" by simp
      then show ?thesis by blast
    qed
  next
    assume "(\<exists>q. c # cs = n @ q) \<or> (\<exists>p q. cs = p @ n @ q)"
    then show "\<exists>p q. c # cs = p @ n @ q"
    proof
      assume "\<exists>q. c # cs = n @ q"
      then obtain q where "c # cs = [] @ n @ q" by auto
      then show ?thesis by blast
    next
      assume "\<exists>p q. cs = p @ n @ q"
      then obtain p q where "cs = p @ n @ q" by blast
      then have "c # cs = (c # p) @ n @ q" by simp
      then show ?thesis by blast
    qed
  qed
  with Cons.IH show ?case by (simp add: startsWith_iff)
qed



lemma remove_hyphens_filter: "remove_hyphens s = filter (\<lambda>c. c \<noteq> CHR ''-'') s"
  by (induction s) auto

lemma find_identifier_first: "find_identifier ty ids = first_identifier ty ids"
  by (induction ids) (auto simp: find_identifier_def)

text \<open>The record that \<open>search\<close> builds is the normalization of the specification.\<close>

lemma search_result_normalization: "search_result b = normalization b"
  unfolding search_result_def normalization_def Let_def or_str_fallback_image or_str_default
    or_num_default or_list_default find_identifier_first
  by (rule refl)

subsection \<open>The sort\<close>

lemma mset_insert_sorted: "mset (insert_sorted cmp x xs) = add_mset x (mset xs)"
  by (induction xs) auto

lemma mset_js_sort: "mset (js_sort cmp xs) = mset xs"
  by (induction xs) (auto simp: mset_insert_sorted)


lemma length_js_sort: "length (js_sort cmp xs) = length xs"
  by (metis mset_js_sort size_mset)

lemma js_sort_Nil_iff: "js_sort cmp xs = [] \<longleftrightarrow> xs = []"
  by (metis length_js_sort length_0_conv)







subsection \<open>The working set\<close>

text \<open>
  Where \<open>filter_results\<close> returns, no assignment to the \<open>const\<close> binding was executed and
  the working set is the scored candidate list, in the provider's order.
\<close>

lemma filter_results_Inr:
  "its \<noteq> [] \<Longrightarrow> filter_results query exact minr its = Inr ws \<Longrightarrow> ws = scoredResults query its"
  by (auto simp: filter_results_def assign_const_def Let_def split: if_splits)


lemma top_book_nonempty: "ws \<noteq> [] \<Longrightarrow> top_book ws = Inr (sc_book (hd ws))"
  by (cases ws) (auto simp: top_book_def)

text \<open>The outcomes of \<open>search\<close> once the provider has answered.\<close>

lemma filter_results_cases:
  "its \<noteq> [] \<Longrightarrow>
   filter_results query exact minr its =
     (if minr > 0 \<or> (exact \<and> filter (is_exact_match query) (scoredResults query its) \<noteq> [])
      then Inl const_fault
      else Inr (scoredResults query its))"
  by (simp add: filter_results_def assign_const_def Let_def scoredResults_def)

lemma search_cases:
  "got (search_url query options) = Inr results \<Longrightarrow>
   search got query options =
     (case items results of
        None \<Rightarrow> Inl (NotFound ''Book not found'')
      | Some its \<Rightarrow>
          if its = [] then Inl (NotFound ''Book not found'')
          else if default_minRating options > 0 \<or>
                  (default_exactTitleMatch options \<and>
                   filter (is_exact_match query) (scoredResults query its) \<noteq> [])
          then Inl const_fault
          else Inr (search_result
                 (sc_book (hd (js_sort compare_score (scoredResults query its))))))"
  by (auto simp: search_def filter_results_cases top_book_nonempty js_sort_Nil_iff
      scoredResults_def split: option.splits)

lemma search_Inr:
  assumes "search got query options = Inr r"
  obtains results its where
    "got (search_url query options) = Inr results" "items results = Some its" "its \<noteq> []"
    "filter_results query (default_exactTitleMatch options) (default_minRating options) its =
       Inr (scoredResults query its)"
    "r = search_result (sc_book (hd (js_sort compare_score (scoredResults query its))))"
proof -
  from assms obtain results where g: "got (search_url query options) = Inr results"
    by (auto simp: search_def split: sum.splits)
  from assms g obtain its where i: "items results = Some its" "its \<noteq> []"
    by (auto simp: search_def split: option.splits if_splits)
  from assms g i obtain ws where
    w: "filter_results query (default_exactTitleMatch options) (default_minRating options) its = Inr ws"
    by (auto simp: search_def split: sum.splits)
  have ws: "ws = scoredResults query its" using filter_results_Inr [OF i(2) w] .
  have "ws \<noteq> []" using i(2) ws by (simp add: scoredResults_def)
  then have "top_book (js_sort compare_score ws) = Inr (sc_book (hd (js_sort compare_score ws)))"
    by (simp add: top_book_nonempty js_sort_Nil_iff)
  with assms g i w have "r = search_result (sc_book (hd (js_sort compare_score ws)))"
    by (simp add: search_def)
  with g i w ws show thesis using that by simp
qed

lemma searchByIsbn_Inr:
  assumes "searchByIsbn got isbn = Inr r"
  obtains results first rest where
    "got (isbn_url isbn) = Inr results" "items results = Some (first # rest)"
    "r = isbn_result first"
proof -
  from assms obtain results where g: "got (isbn_url isbn) = Inr results"
    by (auto simp: searchByIsbn_def isbn_url_def Let_def split: sum.splits)
  from assms g obtain its where i: "items results = Some its" "its \<noteq> []"
    by (auto simp: searchByIsbn_def isbn_url_def Let_def split: option.splits if_splits)
  then obtain first rest where c: "its = first # rest" by (cases its) auto
  with assms g i have "r = isbn_result first"
    by (simp add: searchByIsbn_def isbn_url_def Let_def)
  with g i c show thesis using that by simp
qed

section \<open>Scoring\<close>




section \<open>Filtering\<close>

text \<open>
  Claim C2: when the rating filter and the exact-title filter leave nothing, \<open>search\<close>
  falls back to all candidates with score 0 and returns one of them. The code does not:
  with \<open>minRating\<close> 5 no candidate of the scenario passes the rating filter, and the
  assignment of the filtered list to the \<open>const\<close> binding \<open>scoredResults\<close> (line 161)
  throws before the fallback of line 178 is reached.
\<close>

theorem minRating_fallback_throws:
  "filter (rating_at_least 5) (scoredResults ''Dune'' dune_items) = [] \<and>
   search (provider dune_items) ''Dune'' (no_options\<lparr>minRating := Some 5\<rparr>) = Inl const_fault"
  by code_simp

text \<open>
  Claim C3: with \<open>exactTitleMatch\<close> the working set is narrowed to the exact matches when
  there is one. The code computes the exact matches, here the first candidate, and then
  throws on the assignment to the \<open>const\<close> binding (line 173).
\<close>

theorem exactTitleMatch_narrowing_throws:
  "map sc_book (filter (is_exact_match ''Dune'') (scoredResults ''Dune'' dune_items)) =
     [dune_items ! 0] \<and>
   search (provider dune_items) ''Dune'' (no_options\<lparr>exactTitleMatch := Some True\<rparr>) =
     Inl const_fault"
  by code_simp

section \<open>Results and errors\<close>

text \<open>
  Claim C5: a call fails with the not-found error exactly when the provider sends no
  candidate, and returns one record otherwise. For \<open>search\<close> the code does not: with
  \<open>minRating\<close> 1 every candidate of the scenario passes the filter, and the call fails
  with the \<open>TypeError\<close> of the assignment on line 161, which is neither the not-found
  error nor a record.
\<close>

theorem search_with_candidates_throws:
  "filter (rating_at_least 1) (scoredResults ''Dune'' dune_items) =
     scoredResults ''Dune'' dune_items \<and>
   search (provider dune_items) ''Dune'' (no_options\<lparr>minRating := Some 1\<rparr>) = Inl const_fault"
  by code_simp

section \<open>Ranking\<close>





section \<open>Lookup by ISBN\<close>

text \<open>
  Claim C6: \<open>searchByIsbn\<close> removes every hyphen from its input and asks the provider
  for \<open>isbn:\<close> followed by what is left; the first candidate of the response is
  normalized and returned, whatever the other candidates are; with no candidate the call
  fails with a message that holds the input as the caller gave it. The provider is asked
  for nothing else, and an error of the provider is passed on.
\<close>

theorem searchByIsbn_first_candidate:
  "remove_hyphens isbn = filter (\<lambda>c. c \<noteq> CHR ''-'') isbn \<and>
   (\<forall>results.
      got (endpoint @ ''?q=isbn:'' @ filter (\<lambda>c. c \<noteq> CHR ''-'') isbn) = Inr results \<longrightarrow>
      (\<forall>first rest. items results = Some (first # rest) \<longrightarrow>
         searchByIsbn got isbn = Inr (isbn_result first)) \<and>
      (items results = None \<or> items results = Some [] \<longrightarrow>
         searchByIsbn got isbn = Inl (NotFound (''Book with ISBN '' @ isbn @ '' not found'')))) \<and>
   (\<forall>e. got (endpoint @ ''?q=isbn:'' @ filter (\<lambda>c. c \<noteq> CHR ''-'') isbn) = Inl e \<longrightarrow>
      searchByIsbn got isbn = Inl e)"
  by (auto simp: searchByIsbn_def isbn_not_found_def Let_def remove_hyphens_filter)

text \<open>
  The ISBN scenario (section 8, item 7): the request holds \<open>9780441013593\<close>, the first
  of three candidates is returned; with an empty response the message holds the input
  with its hyphens.
\<close>

theorem searchByIsbn_first_candidate_witness:
  "endpoint @ ''?q=isbn:'' @ filter (\<lambda>c. c \<noteq> CHR ''-'') ''978-0-441-01359-3'' =
     ''https://www.googleapis.com/books/v1/volumes?q=isbn:9780441013593'' \<and>
   searchByIsbn
     (provider_at ''https://www.googleapis.com/books/v1/volumes?q=isbn:9780441013593''
        (rev dune_items))
     ''978-0-441-01359-3'' =
     Inr (isbn_result (sample_book ''c'' ''Dune (Italian Edition)'' 3 5)) \<and>
   searchByIsbn
     (provider_at ''https://www.googleapis.com/books/v1/volumes?q=isbn:9780441013593'' [])
     ''978-0-441-01359-3'' =
     Inl (NotFound ''Book with ISBN 978-0-441-01359-3 not found'')"
proof -
  let ?url = "''https://www.googleapis.com/books/v1/volumes?q=isbn:9780441013593''"
  let ?first = "sample_book ''c'' ''Dune (Italian Edition)'' 3 5"
  let ?rest = "[sample_book ''b'' ''Dune Messiah'' 4 10, sample_book ''a'' ''Dune'' (9 / 2) 1000]"
  have u: "endpoint @ ''?q=isbn:'' @ filter (\<lambda>c. c \<noteq> CHR ''-'') ''978-0-441-01359-3'' = ?url"
    by (simp add: endpoint_def)
  have g: "provider_at ?url (rev dune_items)
      (endpoint @ ''?q=isbn:'' @ filter (\<lambda>c. c \<noteq> CHR ''-'') ''978-0-441-01359-3'') =
      Inr \<lparr>items = Some (?first # ?rest)\<rparr>"
    by (simp add: endpoint_def provider_at_def dune_items_def)
  have e: "provider_at ?url []
      (endpoint @ ''?q=isbn:'' @ filter (\<lambda>c. c \<noteq> CHR ''-'') ''978-0-441-01359-3'') =
      Inr \<lparr>items = Some []\<rparr>"
    by (simp add: endpoint_def provider_at_def)
  have "searchByIsbn (provider_at ?url (rev dune_items)) ''978-0-441-01359-3'' =
      Inr (isbn_result ?first)"
    using searchByIsbn_first_candidate
      [of "''978-0-441-01359-3''" "provider_at ?url (rev dune_items)"] g
    by simp
  moreover have "searchByIsbn (provider_at ?url []) ''978-0-441-01359-3'' =
      Inl (NotFound (''Book with ISBN '' @ ''978-0-441-01359-3'' @ '' not found''))"
    using searchByIsbn_first_candidate [of "''978-0-441-01359-3''" "provider_at ?url []"] e
    by simp
  ultimately show ?thesis by (simp add: endpoint_def)
qed

section \<open>Normalization\<close>

text \<open>
  Claim C7: for a candidate without a thumbnail (no image links, no thumbnail among
  them, or an empty one) both operations set the image to the fallback link, which holds
  the URL-encoded text of the title, \<open>by\<close>, and the authors joined with a comma and a
  space, followed by the fixed parameters; the image of every returned record is a
  non-empty string.
\<close>

theorem image_fallback:
  "(thumbnail_of (volumeInfo b) = None \<or> thumbnail_of (volumeInfo b) = Some [] \<longrightarrow>
      br_image (search_result b) =
        ''https://tse2.mm.bing.net/th?q='' @
        encodeURIComponent
          (title (volumeInfo b) @ '' by '' @
           join '', '' (case authors (volumeInfo b) of None \<Rightarrow> [] | Some as \<Rightarrow> as)) @
        ''&w=256&c=7&rs=1&p=0&dpr=3&pid=1.7&mkt=en-IN&adlt=moderate'' \<and>
      br_image (isbn_result b) = br_image (search_result b)) \<and>
   br_image (search_result b) \<noteq> [] \<and>
   br_image (isbn_result b) \<noteq> [] \<and>
   (\<forall>r. search got query options = Inr r \<longrightarrow> br_image r \<noteq> []) \<and>
   (\<forall>r. searchByIsbn got isbn = Inr r \<longrightarrow> br_image r \<noteq> [])"
proof -
  have img: "br_image (search_result c) \<noteq> [] \<and> br_image (isbn_result c) \<noteq> []" for c
    by (simp add: search_result_def isbn_result_def or_str_nonempty fallback_image_nonempty)
  have "br_image r \<noteq> []" if "search got query options = Inr r" for r
    using that img by (elim search_Inr) simp
  moreover have "br_image r \<noteq> []" if "searchByIsbn got isbn = Inr r" for r
    using that img by (elim searchByIsbn_Inr) simp
  moreover have "thumbnail_of (volumeInfo b) = None \<or> thumbnail_of (volumeInfo b) = Some [] \<longrightarrow>
      br_image (search_result b) =
        ''https://tse2.mm.bing.net/th?q='' @
        encodeURIComponent
          (title (volumeInfo b) @ '' by '' @
           join '', '' (case authors (volumeInfo b) of None \<Rightarrow> [] | Some as \<Rightarrow> as)) @
        ''&w=256&c=7&rs=1&p=0&dpr=3&pid=1.7&mkt=en-IN&adlt=moderate'' \<and>
      br_image (isbn_result b) = br_image (search_result b)"
    by (auto simp: search_result_def isbn_result_def or_str_def or_list_def fallback_image_def
        split: option.splits)
  ultimately show ?thesis using img by blast
qed

text \<open>The missing-image scenario (section 8, item 8): title Foo, authors Bar.\<close>

theorem image_fallback_witness:
  "thumbnail_of (volumeInfo foo_book) = None \<and>
   br_image (search_result foo_book) =
     ''https://tse2.mm.bing.net/th?q=Foo%20by%20Bar&w=256&c=7&rs=1&p=0&dpr=3&pid=1.7&mkt=en-IN&adlt=moderate'' \<and>
   br_image (isbn_result foo_book) = br_image (search_result foo_book)"
proof -
  have t: "thumbnail_of (volumeInfo foo_book) = None"
    by (simp add: thumbnail_of_def foo_book_def blank_info_def)
  have "br_image (search_result foo_book) =
        ''https://tse2.mm.bing.net/th?q='' @
        encodeURIComponent
          (title (volumeInfo foo_book) @ '' by '' @
           join '', '' (case authors (volumeInfo foo_book) of None \<Rightarrow> [] | Some as \<Rightarrow> as)) @
        ''&w=256&c=7&rs=1&p=0&dpr=3&pid=1.7&mkt=en-IN&adlt=moderate'' \<and>
      br_image (isbn_result foo_book) = br_image (search_result foo_book)"
    using image_fallback [of foo_book] t by blast
  moreover have "''https://tse2.mm.bing.net/th?q='' @
        encodeURIComponent
          (title (volumeInfo foo_book) @ '' by '' @
           join '', '' (case authors (volumeInfo foo_book) of None \<Rightarrow> [] | Some as \<Rightarrow> as)) @
        ''&w=256&c=7&rs=1&p=0&dpr=3&pid=1.7&mkt=en-IN&adlt=moderate'' =
     ''https://tse2.mm.bing.net/th?q=Foo%20by%20Bar&w=256&c=7&rs=1&p=0&dpr=3&pid=1.7&mkt=en-IN&adlt=moderate''"
    by code_simp
  ultimately show ?thesis using t by simp
qed

text \<open>
  Claim C9: the record built on the return path of \<open>search\<close> and the record built on the
  return path of \<open>searchByIsbn\<close> are the same function of the candidate, and that
  function is the normalization of the specification: defaults for absent fields, the
  first identifier of each type, the image fallback. Every record either operation
  returns is this function of a candidate, and on a response with one candidate the two
  operations return the same record.
\<close>

theorem normalization_shared:
  "search_result b = isbn_result b \<and>
   search_result b = normalization b \<and>
   (\<forall>r. search got query options = Inr r \<longrightarrow> (\<exists>c. r = search_result c \<and> r = isbn_result c)) \<and>
   (\<forall>r. searchByIsbn got isbn = Inr r \<longrightarrow> (\<exists>c. r = isbn_result c \<and> r = search_result c)) \<and>
   search (provider [b]) query no_options = searchByIsbn (provider [b]) isbn"
proof -
  have same: "search_result c = isbn_result c" for c
    by (simp add: search_result_def isbn_result_def)
  have "search_result b = normalization b"
    by (rule search_result_normalization)
  moreover have "\<exists>c. r = search_result c \<and> r = isbn_result c"
    if "search got query options = Inr r" for r
    using that same by (elim search_Inr) auto
  moreover have "\<exists>c. r = isbn_result c \<and> r = search_result c"
    if "searchByIsbn got isbn = Inr r" for r
    using that same by (elim searchByIsbn_Inr) auto
  moreover have "search (provider [b]) query no_options = searchByIsbn (provider [b]) isbn"
    by (simp add: search_def searchByIsbn_def provider_def no_options_def filter_results_def
        default_exactTitleMatch_def default_minRating_def scoredResults_def Let_def
        top_book_def score_book_def same)
  ultimately show ?thesis using same by blast
qed

text \<open>
  A candidate with four identifiers and a thumbnail: both operations return the same
  record, with the first identifier of each ISBN type and defaults elsewhere.
\<close>

theorem normalization_shared_witness:
  "search (provider [isbn_book]) ''Dune'' no_options = Inr (isbn_result isbn_book) \<and>
   searchByIsbn (provider [isbn_book]) ''0-441-01359-7'' = Inr (search_result isbn_book) \<and>
   br_isbn10 (isbn_result isbn_book) = Some ''0441013597'' \<and>
   br_isbn13 (isbn_result isbn_book) = Some ''9780441013593'' \<and>
   br_image (isbn_result isbn_book) = ''http://books.example/dune.png'' \<and>
   br_publisher (isbn_result isbn_book) = [] \<and>
   br_pageCount (isbn_result isbn_book) = 0 \<and>
   br_authors (isbn_result isbn_book) = []"
proof -
  have a: "search (provider [isbn_book]) ''Dune'' no_options = Inr (search_result isbn_book)"
    by code_simp
  have b: "searchByIsbn (provider [isbn_book]) ''0-441-01359-7'' = Inr (isbn_result isbn_book)"
    by code_simp
  have e: "search_result isbn_book = isbn_result isbn_book"
    by (rule normalization_shared [THEN conjunct1])
  have "search_result isbn_book = normalization isbn_book"
    by (rule normalization_shared [THEN conjunct2, THEN conjunct1])
  with e have n: "isbn_result isbn_book = normalization isbn_book"
    by simp
  have "br_isbn10 (normalization isbn_book) = Some ''0441013597'' \<and>
     br_isbn13 (normalization isbn_book) = Some ''9780441013593'' \<and>
     br_image (normalization isbn_book) = ''http://books.example/dune.png'' \<and>
     br_publisher (normalization isbn_book) = [] \<and>
     br_pageCount (normalization isbn_book) = 0 \<and>
     br_authors (normalization isbn_book) = []"
    by code_simp
  with a b e n show ?thesis by simp
qed

section \<open>The request\<close>




end
